theory Spec2Isabelle
  imports Complex_Main "HOL-Library.Sublist"
begin

section \<open>Strings of the page script\<close>

text \<open>
  A JavaScript string is a sequence of UTF-16 code units. The model keeps the code units
  below 256 (the Latin-1 range), one \<^typ>\<open>char\<close> each. On that range the built-ins the
  script calls are exactly the functions below:
  \<^item> \<open>\s\<close> of a regular expression and the white space \<open>trim()\<close> removes are the same
    set (WhiteSpace and LineTerminator of the language): TAB, LF, VT, FF, CR, SPACE and
    NO-BREAK SPACE;
  \<^item> \<open>toLowerCase()\<close> adds 32 to \<open>A\<close>..\<open>Z\<close> and to U+00C0..U+00DE without U+00D7, and
    keeps every other unit.
\<close>

definition isWhiteSpace :: "char \<Rightarrow> bool" where
  "isWhiteSpace c = (of_char c \<in> {9, 10, 11, 12, 13, 32, 160 :: nat})"

definition lowerUnit :: "char \<Rightarrow> char" where
  "lowerUnit c =
     (let n = of_char c :: nat
      in if (65 \<le> n \<and> n \<le> 90) \<or> (192 \<le> n \<and> n \<le> 222 \<and> n \<noteq> 215)
         then char_of (n + 32) else c)"

definition toLowerCase :: "string \<Rightarrow> string" where
  "toLowerCase s = map lowerUnit s"

definition trim :: "string \<Rightarrow> string" where
  "trim s = rev (dropWhile isWhiteSpace (rev (dropWhile isWhiteSpace s)))"

text \<open>\<open>s.replace(/\s+/g, '_')\<close>: every maximal run of white space becomes one underscore.\<close>

function replaceWhitespaceRuns :: "string \<Rightarrow> string" where
  "replaceWhitespaceRuns [] = []"
| "replaceWhitespaceRuns (c # cs) =
     (if isWhiteSpace c then CHR ''_'' # replaceWhitespaceRuns (dropWhile isWhiteSpace cs)
      else c # replaceWhitespaceRuns cs)"
  by pat_completeness auto
termination
  by (relation "measure length") (auto simp: le_imp_less_Suc length_dropWhile_le)

text \<open>\<open>s.includes(q)\<close>: \<open>q\<close> starts at some index of \<open>s\<close>.\<close>

fun str_includes :: "string \<Rightarrow> string \<Rightarrow> bool" where
  "str_includes [] q = (q = [])"
| "str_includes (c # cs) q = (prefix q (c # cs) \<or> str_includes cs q)"

section \<open>config.js\<close>

definition SHEETS_API_BASE :: string where
  "SHEETS_API_BASE = ''https://sheets.googleapis.com/v4/spreadsheets''"

definition SHEETS_PRODUCTS :: string where
  "SHEETS_PRODUCTS = ''Products''"

definition SHEETS_GALLERY :: string where
  "SHEETS_GALLERY = ''Surgery_Gallery''"

definition PRODUCT_COLUMNS_IMAGE_1 :: string where
  "PRODUCT_COLUMNS_IMAGE_1 = ''image_url_1''"

definition PRODUCT_COLUMNS_IMAGE_2 :: string where
  "PRODUCT_COLUMNS_IMAGE_2 = ''image_url_2''"

definition PRODUCT_COLUMNS_IMAGE_3 :: string where
  "PRODUCT_COLUMNS_IMAGE_3 = ''image_url_3''"

definition PRODUCT_COLUMNS_NAME :: string where
  "PRODUCT_COLUMNS_NAME = ''product_name''"

definition PRODUCT_COLUMNS_DESCRIPTION :: string where
  "PRODUCT_COLUMNS_DESCRIPTION = ''basic_description''"

definition PRODUCT_COLUMNS_BRAND :: string where
  "PRODUCT_COLUMNS_BRAND = ''brand_name''"

definition PRODUCT_COLUMNS_SHAPE :: string where
  "PRODUCT_COLUMNS_SHAPE = ''frame_shape''"

definition PRODUCT_COLUMNS_MATERIAL :: string where
  "PRODUCT_COLUMNS_MATERIAL = ''material_type''"

definition GALLERY_COLUMNS_CATEGORY :: string where
  "GALLERY_COLUMNS_CATEGORY = ''category''"

definition PREVIEW_LIMIT_PRODUCTS :: int where
  "PREVIEW_LIMIT_PRODUCTS = 3"

definition PREVIEW_LIMIT_GALLERY :: int where
  "PREVIEW_LIMIT_GALLERY = 3"

section \<open>GoogleSheetsService.parseSheetData\<close>

text \<open>
  A record of the catalog is a plain object whose own properties hold strings: a map
  from keys to strings. The grid of a table response is a list of rows of strings;
  \<open>None\<close> is a response with no \<open>values\<close> field.
\<close>

type_synonym jsrecord = "string \<rightharpoonup> string"

type_synonym grid = "string list list"

definition normalizeHeader :: "string \<Rightarrow> string" where
  "normalizeHeader header = replaceWhitespaceRuns (toLowerCase (trim header))"

text \<open>\<open>row[index] || ''\<close>: a missing cell and an empty cell both give the empty string.\<close>

definition cellOrEmpty :: "string list \<Rightarrow> nat \<Rightarrow> string" where
  "cellOrEmpty row index =
     (if index < length row \<and> row ! index \<noteq> [] then row ! index else [])"

text \<open>
  \<open>item[key] = v\<close> on an object made by \<open>{}\<close>, with a string \<open>v\<close>. The key
  \<open>__proto__\<close> reaches the accessor of \<open>Object.prototype\<close>, whose setter ignores a
  value that is neither an object nor null: no own property is made.
\<close>

definition assignField :: "jsrecord \<Rightarrow> string \<Rightarrow> string \<Rightarrow> jsrecord" where
  "assignField item key v = (if key = ''__proto__'' then item else item(key \<mapsto> v))"

text \<open>The \<open>headers.forEach((header, index) => ...)\<close> of one row, from \<open>index\<close> on.\<close>

fun forEachHeader :: "string list \<Rightarrow> nat \<Rightarrow> string list \<Rightarrow> jsrecord \<Rightarrow> jsrecord" where
  "forEachHeader [] index row item = item"
| "forEachHeader (header # headers) index row item =
     forEachHeader headers (Suc index) row
       (assignField item (normalizeHeader header) (cellOrEmpty row index))"

definition parseSheetData :: "grid option \<Rightarrow> string \<Rightarrow> jsrecord list" where
  "parseSheetData values sheetName =
     (case values of
        None \<Rightarrow> []
      | Some [] \<Rightarrow> []
      | Some (headers # rows) \<Rightarrow> map (\<lambda>row. forEachHeader headers 0 row Map.empty) rows)"

text \<open>
  The normalisation as the specification words it: every unit lower-cased, every white
  space unit replaced by an underscore. It is compared with \<^const>\<open>normalizeHeader\<close>.
\<close>

definition spec_normalize :: "string \<Rightarrow> string" where
  "spec_normalize header = map (\<lambda>c. if isWhiteSpace c then CHR ''_'' else lowerUnit c) header"

section \<open>GoogleSheetsService.fetchData\<close>

text \<open>
  A thrown error, or the reason of a rejected promise. The result of an \<open>async\<close>
  function is a sum: \<open>Inl\<close> the rejection, \<open>Inr\<close> the value it resolves to.
\<close>

datatype js_error =
    NetworkError string
  | HttpError nat
  | SourceError string
  | SyntaxError

text \<open>
  The JSON body of a table response: \<open>payload_error\<close> is the message of its \<open>error\<close>
  field when it has one, \<open>payload_values\<close> its \<open>values\<close> field.
\<close>

record table_payload =
  payload_error :: "string option"
  payload_values :: "grid option"

datatype response_body = NotJson | JsonBody table_payload

record http_response =
  ok :: bool
  status :: nat
  body :: response_body

datatype fetch_outcome = FetchRejected string | FetchResolved http_response

record sheets_service =
  apiKey :: string
  spreadsheetId :: string
  baseURL :: string

text \<open>
  The constructor. \<open>CONFIG.API_KEY\<close> and \<open>CONFIG.SPREADSHEET_ID\<close> are the
  deployment's credentials; they are arguments here.
\<close>

definition GoogleSheetsService :: "string \<Rightarrow> string \<Rightarrow> sheets_service" where
  "GoogleSheetsService key sheet =
     \<lparr>apiKey = key, spreadsheetId = sheet,
      baseURL = SHEETS_API_BASE @ ''/'' @ sheet @ ''/values''\<rparr>"

text \<open>The URL of a request: \<open>`${this.baseURL}/${sheetName}?key=${this.apiKey}`\<close>.\<close>

definition sheet_url :: "sheets_service \<Rightarrow> string \<Rightarrow> string" where
  "sheet_url this sheetName = baseURL this @ ''/'' @ sheetName @ ''?key='' @ apiKey this"

text \<open>
  \<open>fetch\<close> is the network at the time of the call: what the request for a URL comes to.
  The \<open>catch\<close> of \<open>fetchData\<close> logs and throws the same error again.
\<close>

definition fetchData ::
  "(string \<Rightarrow> fetch_outcome) \<Rightarrow> sheets_service \<Rightarrow> string \<Rightarrow> js_error + jsrecord list" where
  "fetchData fetch this sheetName =
     (let url = sheet_url this sheetName
      in case fetch url of
           FetchRejected message \<Rightarrow> Inl (NetworkError message)
         | FetchResolved response \<Rightarrow>
             if \<not> ok response then Inl (HttpError (status response))
             else (case body response of
                     NotJson \<Rightarrow> Inl SyntaxError
                   | JsonBody d \<Rightarrow>
                       (case payload_error d of
                          Some message \<Rightarrow> Inl (SourceError message)
                        | None \<Rightarrow> Inr (parseSheetData (payload_values d) sheetName))))"

text \<open>
  The three failures of a fetch the specification names: the request is rejected, the
  status is not a success, the source reports an error in the payload.
\<close>

fun fetch_failure :: "fetch_outcome \<Rightarrow> bool" where
  "fetch_failure (FetchRejected message) = True"
| "fetch_failure (FetchResolved response) =
     (if ok response
      then (case body response of NotJson \<Rightarrow> False | JsonBody d \<Rightarrow> payload_error d \<noteq> None)
      else True)"

section \<open>ProductManager\<close>

record product_manager =
  service :: sheets_service
  products :: "jsrecord list"
  filteredProducts :: "jsrecord list"

definition ProductManager :: "sheets_service \<Rightarrow> product_manager" where
  "ProductManager svc = \<lparr>service = svc, products = [], filteredProducts = []\<rparr>"

definition loadProducts ::
  "(string \<Rightarrow> fetch_outcome) \<Rightarrow> product_manager \<Rightarrow> (js_error + jsrecord list) \<times> product_manager" where
  "loadProducts fetch this =
     (case fetchData fetch (service this) SHEETS_PRODUCTS of
        Inr fetched \<Rightarrow> (Inr fetched, this\<lparr>products := fetched, filteredProducts := fetched\<rparr>)
      | Inl error \<Rightarrow> (Inr [], this))"

text \<open>\<open>xs.slice(0, end)\<close>: a negative \<open>end\<close> counts from the end of the list.\<close>

definition slice0 :: "'a list \<Rightarrow> int \<Rightarrow> 'a list" where
  "slice0 xs end =
     (if end < 0 then take (nat (int (length xs) + end)) xs else take (nat end) xs)"

text \<open>An argument left out (\<open>None\<close>) takes the default of the parameter.\<close>

definition getProductsForPreview :: "int option \<Rightarrow> product_manager \<Rightarrow> jsrecord list" where
  "getProductsForPreview limit this =
     slice0 (filteredProducts this) (case limit of None \<Rightarrow> PREVIEW_LIMIT_PRODUCTS | Some n \<Rightarrow> n)"

text \<open>
  \<open>product.id === id\<close>, for an \<open>id\<close> that is a string or \<open>undefined\<close> (\<open>None\<close>): a
  product without the field has \<open>undefined\<close> there.
\<close>

definition getProductById :: "string option \<Rightarrow> product_manager \<Rightarrow> jsrecord option" where
  "getProductById ident this = find (\<lambda>product. product ''id'' = ident) (filteredProducts this)"

text \<open>
  \<open>product[key]?.toLowerCase().includes(searchQuery)\<close>: the optional chain gives
  \<open>undefined\<close> (\<open>None\<close>) for a product without the field, and calls nothing on it.
\<close>

definition fieldIncludes :: "jsrecord \<Rightarrow> string \<Rightarrow> string \<Rightarrow> bool option" where
  "fieldIncludes product key searchQuery =
     (case product key of
        None \<Rightarrow> None
      | Some v \<Rightarrow> Some (str_includes (toLowerCase v) searchQuery))"

definition truthy :: "bool option \<Rightarrow> bool" where
  "truthy v = (v = Some True)"

text \<open>\<open>a || b\<close>: \<open>a\<close> when it is truthy, else \<open>b\<close>.\<close>

definition js_or :: "bool option \<Rightarrow> bool option \<Rightarrow> bool option" where
  "js_or a b = (if truthy a then a else b)"

text \<open>The callback of the filter; \<open>filter\<close> keeps a product when the value is truthy.\<close>

definition matchesSearch :: "string \<Rightarrow> jsrecord \<Rightarrow> bool" where
  "matchesSearch searchQuery product =
     truthy
       (js_or (js_or (js_or (js_or
          (fieldIncludes product PRODUCT_COLUMNS_NAME searchQuery)
          (fieldIncludes product PRODUCT_COLUMNS_DESCRIPTION searchQuery))
          (fieldIncludes product PRODUCT_COLUMNS_BRAND searchQuery))
          (fieldIncludes product PRODUCT_COLUMNS_SHAPE searchQuery))
          (fieldIncludes product PRODUCT_COLUMNS_MATERIAL searchQuery))"

text \<open>\<open>!query\<close> holds for a query left out (\<open>None\<close>) and for the empty string.\<close>

definition searchProducts ::
  "string option \<Rightarrow> product_manager \<Rightarrow> jsrecord list \<times> product_manager" where
  "searchProducts query this =
     (case query of
        None \<Rightarrow> (products this, this\<lparr>filteredProducts := products this\<rparr>)
      | Some q \<Rightarrow>
          if q = [] then (products this, this\<lparr>filteredProducts := products this\<rparr>)
          else (let searchQuery = toLowerCase q;
                    found = filter (matchesSearch searchQuery) (products this)
                in (found, this\<lparr>filteredProducts := found\<rparr>)))"

text \<open>
  The operations on a loaded catalog: what each returns, and the manager after it. Only
  \<open>searchProducts\<close> assigns a field.
\<close>

datatype catalog_op =
    Preview "int option"
  | ById "string option"
  | Search "string option"

datatype op_result = Records "jsrecord list" | Found "jsrecord option"

fun runOp :: "product_manager \<Rightarrow> catalog_op \<Rightarrow> op_result \<times> product_manager" where
  "runOp this (Preview limit) = (Records (getProductsForPreview limit this), this)"
| "runOp this (ById ident) = (Found (getProductById ident this), this)"
| "runOp this (Search query) =
     (case searchProducts query this of (found, this') \<Rightarrow> (Records found, this'))"

definition applyOp :: "product_manager \<Rightarrow> catalog_op \<Rightarrow> product_manager" where
  "applyOp this op = snd (runOp this op)"

text \<open>
  The specification's words for a match: the query, lower-cased, is a contiguous part of
  the field's value, lower-cased.
\<close>

definition ci_substring :: "string \<Rightarrow> string \<Rightarrow> bool" where
  "ci_substring q v = sublist (toLowerCase q) (toLowerCase v)"

definition SEARCH_FIELDS :: "string list" where
  "SEARCH_FIELDS =
     [PRODUCT_COLUMNS_NAME, PRODUCT_COLUMNS_DESCRIPTION, PRODUCT_COLUMNS_BRAND,
      PRODUCT_COLUMNS_SHAPE, PRODUCT_COLUMNS_MATERIAL]"

section \<open>GalleryManager\<close>

record gallery_manager =
  gallery_service :: sheets_service
  galleryItems :: "jsrecord list"

definition GalleryManager :: "sheets_service \<Rightarrow> gallery_manager" where
  "GalleryManager svc = \<lparr>gallery_service = svc, galleryItems = []\<rparr>"

definition loadGallery ::
  "(string \<Rightarrow> fetch_outcome) \<Rightarrow> gallery_manager \<Rightarrow> (js_error + jsrecord list) \<times> gallery_manager" where
  "loadGallery fetch this =
     (case fetchData fetch (gallery_service this) SHEETS_GALLERY of
        Inr fetched \<Rightarrow> (Inr fetched, this\<lparr>galleryItems := fetched\<rparr>)
      | Inl error \<Rightarrow> (Inr [], this))"

definition getGalleryForPreview :: "int option \<Rightarrow> gallery_manager \<Rightarrow> jsrecord list" where
  "getGalleryForPreview limit this =
     slice0 (galleryItems this) (case limit of None \<Rightarrow> PREVIEW_LIMIT_GALLERY | Some n \<Rightarrow> n)"

definition getGalleryById :: "string option \<Rightarrow> gallery_manager \<Rightarrow> jsrecord option" where
  "getGalleryById ident this = find (\<lambda>item. item ''id'' = ident) (galleryItems this)"

text \<open>
  \<open>item[key]?.toLowerCase() === category.toLowerCase()\<close>: \<open>undefined\<close> on the left
  for an item without the field, which no string equals.
\<close>

definition categoryEquals :: "string \<Rightarrow> jsrecord \<Rightarrow> bool" where
  "categoryEquals category item =
     (case item GALLERY_COLUMNS_CATEGORY of
        None \<Rightarrow> False
      | Some v \<Rightarrow> toLowerCase v = toLowerCase category)"

definition filterByCategory :: "string option \<Rightarrow> gallery_manager \<Rightarrow> jsrecord list" where
  "filterByCategory category this =
     (case category of
        None \<Rightarrow> galleryItems this
      | Some c \<Rightarrow>
          if c = [] then galleryItems this
          else filter (categoryEquals c) (galleryItems this))"

section \<open>UI.getProductImages\<close>

definition NO_IMAGE_PLACEHOLDER :: string where
  "NO_IMAGE_PLACEHOLDER = ''https://via.placeholder.com/300x250?text=No+Image''"

definition imageFields :: "string list" where
  "imageFields = [PRODUCT_COLUMNS_IMAGE_1, PRODUCT_COLUMNS_IMAGE_2, PRODUCT_COLUMNS_IMAGE_3]"

text \<open>
  One round of the \<open>forEach\<close>: \<open>product[field] && product[field].trim()\<close> is falsy for
  a missing field, for the empty string and for a string of white space.
\<close>

definition pushImage :: "jsrecord \<Rightarrow> string list \<Rightarrow> string \<Rightarrow> string list" where
  "pushImage product images field =
     (case product field of
        None \<Rightarrow> images
      | Some v \<Rightarrow> if v \<noteq> [] \<and> trim v \<noteq> [] then images @ [trim v] else images)"

definition getProductImages :: "jsrecord \<Rightarrow> string list" where
  "getProductImages product =
     (let images = foldl (pushImage product) [] imageFields
      in if length images > 0 then images else [NO_IMAGE_PLACEHOLDER])"

section \<open>Detail pages\<close>

text \<open>
  \<open>JSON.parse\<close> belongs to the host. A string of the session storage is kept by what
  \<open>JSON.parse\<close> makes of it: the value of a JSON text, or a \<open>SyntaxError\<close> for a string
  that is no JSON text. A number is a double, a rational here.
\<close>

datatype json =
    JNull
  | JBool bool
  | JNumber rat
  | JString string
  | JArray "json list"
  | JObject "(string \<times> json) list"

datatype stored = NotJSON string | JSONText json

type_synonym storage = "string \<rightharpoonup> stored"

text \<open>
  \<open>JSON.parse(sessionStorage.getItem(key))\<close>: \<open>getItem\<close> gives \<open>null\<close> for a key that
  is not stored, and \<open>JSON.parse(null)\<close> reads the text \<open>null\<close>.
\<close>

definition parseItem :: "storage \<Rightarrow> string \<Rightarrow> js_error + json" where
  "parseItem sessionStorage key =
     (case sessionStorage key of
        None \<Rightarrow> Inr JNull
      | Some (NotJSON text) \<Rightarrow> Inl SyntaxError
      | Some (JSONText v) \<Rightarrow> Inr v)"

text \<open>\<open>!data\<close> holds for \<open>null\<close>, \<open>false\<close>, zero and the empty string.\<close>

fun falsy :: "json \<Rightarrow> bool" where
  "falsy JNull = True"
| "falsy (JBool b) = (\<not> b)"
| "falsy (JNumber x) = (x = 0)"
| "falsy (JString s) = (s = [])"
| "falsy (JArray xs) = False"
| "falsy (JObject members) = False"

text \<open>
  The page a render function runs on: the path of its location and the \<open>innerHTML\<close> of
  the element \<open>details-container\<close> (\<open>None\<close> on a page without the element).
\<close>

record detail_page =
  pathname :: string
  details_container :: "string option"

text \<open>
  What a render function comes to: it returns, it throws, or it goes on to fill the
  detail template from the data (the rest of its body, which is not modelled).
\<close>

datatype render_result =
    Returned detail_page
  | Threw js_error
  | FillsTemplate json

definition NO_PRODUCT_SELECTED :: string where
  "NO_PRODUCT_SELECTED =
     ''<div class=\"no-results\">No product selected. <a href=\"products.html\">Browse Products</a></div>''"

definition NO_SURGERY_SELECTED :: string where
  "NO_SURGERY_SELECTED =
     ''<div class=\"no-results\">No surgery selected. <a href=\"gallery.html\">Browse Gallery</a></div>''"

definition renderProductDetails :: "storage \<Rightarrow> detail_page \<Rightarrow> render_result" where
  "renderProductDetails sessionStorage page =
     (if details_container page = None
         \<or> \<not> str_includes (pathname page) ''product-details.html''
      then Returned page
      else (case parseItem sessionStorage ''selectedProduct'' of
              Inl error \<Rightarrow> Threw error
            | Inr d \<Rightarrow>
                if falsy d
                then Returned (page\<lparr>details_container := Some NO_PRODUCT_SELECTED\<rparr>)
                else FillsTemplate d))"

definition renderSurgeryDetails :: "storage \<Rightarrow> detail_page \<Rightarrow> render_result" where
  "renderSurgeryDetails sessionStorage page =
     (if details_container page = None
         \<or> \<not> str_includes (pathname page) ''surgery-details.html''
      then Returned page
      else (case parseItem sessionStorage ''selectedSurgery'' of
              Inl error \<Rightarrow> Threw error
            | Inr d \<Rightarrow>
                if falsy d
                then Returned (page\<lparr>details_container := Some NO_SURGERY_SELECTED\<rparr>)
                else FillsTemplate d))"

section \<open>Records of a table response\<close>

lemma forEachHeader_other:
  "k \<notin> set (map normalizeHeader headers) \<Longrightarrow> forEachHeader headers i row item k = item k"
  by (induction headers arbitrary: i item) (auto simp: assignField_def)

lemma forEachHeader_dom:
  "dom (forEachHeader headers i row item) =
     dom item \<union> (set (map normalizeHeader headers) - {''__proto__''})"
  by (induction headers arbitrary: i item) (auto simp: assignField_def)

lemma forEachHeader_last:
  assumes "j < length headers"
    and "normalizeHeader (headers ! j) \<noteq> ''__proto__''"
    and "\<forall>j'. j < j' \<and> j' < length headers \<longrightarrow>
           normalizeHeader (headers ! j') \<noteq> normalizeHeader (headers ! j)"
  shows "forEachHeader headers i row item (normalizeHeader (headers ! j)) =
           Some (cellOrEmpty row (i + j))"
  using assms
proof (induction headers arbitrary: i j item)
  case Nil
  then show ?case by simp
next
  case (Cons h hs)
  show ?case
  proof (cases j)
    case 0
    have "normalizeHeader h \<notin> set (map normalizeHeader hs)"
    proof
      assume "normalizeHeader h \<in> set (map normalizeHeader hs)"
      then obtain m where m: "m < length hs" "normalizeHeader (hs ! m) = normalizeHeader h"
        by (auto simp: in_set_conv_nth)
      from Cons.prems(3) 0 m(1) have "normalizeHeader ((h # hs) ! Suc m) \<noteq> normalizeHeader h"
        by auto
      with m(2) show False by simp
    qed
    with 0 Cons.prems(2) show ?thesis
      by (simp add: forEachHeader_other assignField_def)
  next
    case (Suc n)
    from Cons.prems Suc have n: "n < length hs"
      and np: "normalizeHeader (hs ! n) \<noteq> ''__proto__''"
      by auto
    have later: "\<forall>j'. n < j' \<and> j' < length hs \<longrightarrow>
                   normalizeHeader (hs ! j') \<noteq> normalizeHeader (hs ! n)"
    proof (intro allI impI)
      fix j' assume "n < j' \<and> j' < length hs"
      then have "j < Suc j' \<and> Suc j' < length (h # hs)" using Suc by simp
      with Cons.prems(3) have "normalizeHeader ((h # hs) ! Suc j') \<noteq> normalizeHeader ((h # hs) ! j)"
        by blast
      then show "normalizeHeader (hs ! j') \<noteq> normalizeHeader (hs ! n)" using Suc by simp
    qed
    from Cons.IH [OF n np later] Suc show ?thesis by simp
  qed
qed

lemma normalizeHeader_proto: "normalizeHeader ''__proto__'' = ''__proto__''"
  by code_simp

lemma normalizeHeader_Name: "normalizeHeader '' Name'' = ''name''"
  by code_simp

lemma spec_normalize_Name: "spec_normalize '' Name'' = ''_name''"
  by code_simp

text \<open>
  C1, as the claim states it, fails. The header \<open>" Name"\<close> gives the key \<open>name\<close>:
  the record has no field under the header lower-cased with its white space replaced by
  underscores (\<open>_name\<close>). The header \<open>__proto__\<close> gives no field at all.
\<close>

theorem parseSheetData_records_counterexample:
  "(parseSheetData (Some [['' Name''], [''Frame A'']]) ''Products'' ! 0)
      (spec_normalize '' Name'') = None \<and>
   (parseSheetData (Some [['' Name''], [''Frame A'']]) ''Products'' ! 0) ''name'' =
      Some ''Frame A'' \<and>
   (parseSheetData (Some [[''__proto__''], [''Frame A'']]) ''Products'' ! 0)
      (normalizeHeader ''__proto__'') = None"
  by (simp add: parseSheetData_def normalizeHeader_Name spec_normalize_Name
      normalizeHeader_proto assignField_def cellOrEmpty_def)

text \<open>
  C1, amended: a grid with header row \<open>H\<close> and \<open>N\<close> data rows gives exactly \<open>N\<close>
  records. The key of a header is the header trimmed, lower-cased, with every run of white
  space replaced by one underscore. The fields of each record are the keys of the headers
  of \<open>H\<close> (nothing is said of the key \<open>__proto__\<close>). Under the key of a header that
  no later header shares, the record holds the cell of the row in that column, and the
  empty string when the row is shorter than that.
\<close>

theorem parseSheetData_records:
  "length (parseSheetData (Some (H # rows)) sheetName) = length rows \<and>
   (\<forall>n < length rows.
      dom (parseSheetData (Some (H # rows)) sheetName ! n) - {''__proto__''} =
        set (map normalizeHeader H) - {''__proto__''} \<and>
      (\<forall>i < length H.
         normalizeHeader (H ! i) \<noteq> ''__proto__'' \<and>
         (\<forall>j. i < j \<and> j < length H \<longrightarrow> normalizeHeader (H ! j) \<noteq> normalizeHeader (H ! i)) \<longrightarrow>
         (parseSheetData (Some (H # rows)) sheetName ! n) (normalizeHeader (H ! i)) =
           Some (if i < length (rows ! n) then rows ! n ! i else [])))"
proof -
  have cell: "cellOrEmpty row i = (if i < length row then row ! i else [])" for row i
    by (simp add: cellOrEmpty_def)
  show ?thesis
    using forEachHeader_last [where i = 0]
    by (simp add: parseSheetData_def forEachHeader_dom cell)
qed

theorem parseSheetData_records_witness:
  "length (parseSheetData (Some [[''Product  Name '', ''Brand''], [''Frame A'']]) ''Products'') = 1 \<and>
   (parseSheetData (Some [[''Product  Name '', ''Brand''], [''Frame A'']]) ''Products'' ! 0)
      ''product_name'' = Some ''Frame A'' \<and>
   (parseSheetData (Some [[''Product  Name '', ''Brand''], [''Frame A'']]) ''Products'' ! 0)
      ''brand'' = Some []"
proof -
  let ?H = "[''Product  Name '', ''Brand'']"
  let ?rows = "[[''Frame A'']]"
  have k0: "normalizeHeader ''Product  Name '' = ''product_name''" by code_simp
  have k1: "normalizeHeader ''Brand'' = ''brand''" by code_simp
  note t = parseSheetData_records [of ?H ?rows "''Products''"]
  from t have len: "length (parseSheetData (Some (?H # ?rows)) ''Products'') = 1" by simp
  from t have all: "\<forall>i < length ?H.
         normalizeHeader (?H ! i) \<noteq> ''__proto__'' \<and>
         (\<forall>j. i < j \<and> j < length ?H \<longrightarrow> normalizeHeader (?H ! j) \<noteq> normalizeHeader (?H ! i)) \<longrightarrow>
         (parseSheetData (Some (?H # ?rows)) ''Products'' ! 0) (normalizeHeader (?H ! i)) =
           Some (if i < length (?rows ! 0) then ?rows ! 0 ! i else [])"
    by simp
  have later0: "\<forall>j. 0 < j \<and> j < length ?H \<longrightarrow> normalizeHeader (?H ! j) \<noteq> normalizeHeader (?H ! 0)"
    by (auto simp: k0 k1 less_Suc_eq)
  from all [rule_format, of 0] later0 have f0:
    "(parseSheetData (Some (?H # ?rows)) ''Products'' ! 0) ''product_name'' = Some ''Frame A''"
    by (simp add: k0)
  from all [rule_format, of 1] have f1:
    "(parseSheetData (Some (?H # ?rows)) ''Products'' ! 0) ''brand'' = Some []"
    by (simp add: k1)
  from len f0 f1 show ?thesis by simp
qed

section \<open>Loading a catalog\<close>

lemma fetchData_failure:
  "fetch_failure (fetch (sheet_url svc sheetName)) \<Longrightarrow> \<exists>e. fetchData fetch svc sheetName = Inl e"
  by (cases "fetch (sheet_url svc sheetName)")
     (auto simp: fetchData_def split: response_body.splits option.splits if_splits)

text \<open>
  C2: when the fetch fails (the request is rejected, the status is not a success, or the
  payload reports an error), \<open>loadProducts\<close> and \<open>loadGallery\<close> resolve to the empty
  list and leave the manager as it was; and whatever the network does, both resolve:
  neither is ever rejected.
\<close>

theorem load_swallows_failure:
  "(fetch_failure (fetch (sheet_url (service pm) SHEETS_PRODUCTS)) \<longrightarrow>
      loadProducts fetch pm = (Inr [], pm)) \<and>
   (fetch_failure (fetch (sheet_url (gallery_service gm) SHEETS_GALLERY)) \<longrightarrow>
      loadGallery fetch gm = (Inr [], gm)) \<and>
   (\<exists>rs. fst (loadProducts fetch pm) = Inr rs) \<and>
   (\<exists>rs. fst (loadGallery fetch gm) = Inr rs)"
proof (intro conjI impI)
  assume "fetch_failure (fetch (sheet_url (service pm) SHEETS_PRODUCTS))"
  then obtain e where "fetchData fetch (service pm) SHEETS_PRODUCTS = Inl e"
    using fetchData_failure by blast
  then show "loadProducts fetch pm = (Inr [], pm)"
    by (simp add: loadProducts_def)
next
  assume "fetch_failure (fetch (sheet_url (gallery_service gm) SHEETS_GALLERY))"
  then obtain e where "fetchData fetch (gallery_service gm) SHEETS_GALLERY = Inl e"
    using fetchData_failure by blast
  then show "loadGallery fetch gm = (Inr [], gm)"
    by (simp add: loadGallery_def)
next
  show "\<exists>rs. fst (loadProducts fetch pm) = Inr rs"
    by (cases "fetchData fetch (service pm) SHEETS_PRODUCTS") (simp_all add: loadProducts_def)
next
  show "\<exists>rs. fst (loadGallery fetch gm) = Inr rs"
    by (cases "fetchData fetch (gallery_service gm) SHEETS_GALLERY") (simp_all add: loadGallery_def)
qed

theorem load_swallows_failure_witness:
  "loadProducts (\<lambda>url. FetchRejected ''Failed to fetch'')
      (ProductManager (GoogleSheetsService ''key'' ''sheet'')) =
     (Inr [], ProductManager (GoogleSheetsService ''key'' ''sheet'')) \<and>
   loadGallery (\<lambda>url. FetchResolved \<lparr>ok = False, status = 403, body = NotJson\<rparr>)
      (GalleryManager (GoogleSheetsService ''key'' ''sheet'')) =
     (Inr [], GalleryManager (GoogleSheetsService ''key'' ''sheet''))"
  using load_swallows_failure [of "\<lambda>url. FetchRejected ''Failed to fetch''"
      "ProductManager (GoogleSheetsService ''key'' ''sheet'')"
      "GalleryManager (GoogleSheetsService ''key'' ''sheet'')"]
    load_swallows_failure [of "\<lambda>url. FetchResolved \<lparr>ok = False, status = 403, body = NotJson\<rparr>"
      "ProductManager (GoogleSheetsService ''key'' ''sheet'')"
      "GalleryManager (GoogleSheetsService ''key'' ''sheet'')"]
  by simp

section \<open>Searching the products\<close>

lemma str_includes_sublist: "str_includes s q \<longleftrightarrow> sublist q s"
  by (induction s) (simp_all add: sublist_Cons_right)

lemma truthy_fieldIncludes:
  "truthy (fieldIncludes product key sq) \<longleftrightarrow>
     (\<exists>v. product key = Some v \<and> str_includes (toLowerCase v) sq)"
  by (simp add: truthy_def fieldIncludes_def split: option.splits)

lemma truthy_js_or: "truthy (js_or a b) \<longleftrightarrow> truthy a \<or> truthy b"
  by (simp add: js_or_def)

lemma matchesSearch_iff:
  "matchesSearch (toLowerCase q) product \<longleftrightarrow>
     (\<exists>key \<in> set SEARCH_FIELDS. \<exists>v. product key = Some v \<and> ci_substring q v)"
  by (simp add: matchesSearch_def truthy_js_or truthy_fieldIncludes SEARCH_FIELDS_def
      ci_substring_def str_includes_sublist)

lemma searchProducts_products: "products (snd (searchProducts query this)) = products this"
  by (simp add: searchProducts_def Let_def split: option.splits)

lemma ci_tita_Titanium: "ci_substring ''TiTa'' ''Titanium Frame''"
  by code_simp

lemma ci_tita_Steel: "\<not> ci_substring ''TiTa'' ''Steel Frame''"
  by code_simp

text \<open>
  C3: for a query that is not empty, \<open>searchProducts\<close> returns exactly the products in
  which the query is a case-insensitive substring of the value of one of the five fields
  (name, description, brand, shape, material), in the order of the full list; for an empty
  or absent query it returns the full list. In both cases what it returns is the new
  filtered view, and the full list is as before.
\<close>

theorem searchProducts_result:
  "(q \<noteq> [] \<longrightarrow>
      fst (searchProducts (Some q) this) =
        filter (\<lambda>product. \<exists>key \<in> set SEARCH_FIELDS. \<exists>v. product key = Some v \<and> ci_substring q v)
          (products this)) \<and>
   fst (searchProducts None this) = products this \<and>
   fst (searchProducts (Some []) this) = products this \<and>
   filteredProducts (snd (searchProducts query this)) = fst (searchProducts query this) \<and>
   products (snd (searchProducts query this)) = products this"
proof -
  have "matchesSearch (toLowerCase q) =
     (\<lambda>product. \<exists>key \<in> set SEARCH_FIELDS. \<exists>v. product key = Some v \<and> ci_substring q v)"
    by (rule ext) (rule matchesSearch_iff)
  then show ?thesis
    by (simp add: searchProducts_def Let_def split: option.splits)
qed

theorem searchProducts_result_witness:
  "''TiTa'' \<noteq> [] \<and>
   fst (searchProducts (Some ''TiTa'')
     \<lparr>service = GoogleSheetsService ''key'' ''sheet'',
      products = [[''product_name'' \<mapsto> ''Steel Frame''], [''product_name'' \<mapsto> ''Titanium Frame'']],
      filteredProducts = []\<rparr>) = [[''product_name'' \<mapsto> ''Titanium Frame'']]"
  using searchProducts_result [of "''TiTa''"
     "\<lparr>service = GoogleSheetsService ''key'' ''sheet'',
      products = [[''product_name'' \<mapsto> ''Steel Frame''], [''product_name'' \<mapsto> ''Titanium Frame'']],
      filteredProducts = []\<rparr>"]
    ci_tita_Titanium ci_tita_Steel
  by (simp add: SEARCH_FIELDS_def PRODUCT_COLUMNS_NAME_def PRODUCT_COLUMNS_DESCRIPTION_def
      PRODUCT_COLUMNS_BRAND_def PRODUCT_COLUMNS_SHAPE_def PRODUCT_COLUMNS_MATERIAL_def)

lemma searches_products:
  "products (foldl (\<lambda>s q. snd (searchProducts q s)) this qs) = products this"
  by (induction qs arbitrary: this) (simp_all add: searchProducts_products)

text \<open>
  C4: a search done twice in a row gives the same result and the same manager as the
  search done once; and after any sequence of searches, a search with an empty or absent
  query returns the full list and makes it the filtered view.
\<close>

theorem searchProducts_idempotent_reset:
  "searchProducts query (snd (searchProducts query this)) = searchProducts query this \<and>
   fst (searchProducts None (foldl (\<lambda>s q. snd (searchProducts q s)) this qs)) = products this \<and>
   fst (searchProducts (Some []) (foldl (\<lambda>s q. snd (searchProducts q s)) this qs)) = products this \<and>
   filteredProducts (snd (searchProducts None (foldl (\<lambda>s q. snd (searchProducts q s)) this qs))) =
     products this \<and>
   filteredProducts (snd (searchProducts (Some []) (foldl (\<lambda>s q. snd (searchProducts q s)) this qs))) =
     products this"
proof -
  have idem: "searchProducts query (snd (searchProducts query this)) = searchProducts query this"
    by (simp add: searchProducts_def Let_def split: option.splits)
  have reset: "searchProducts None s = (products s, s\<lparr>filteredProducts := products s\<rparr>)"
    "searchProducts (Some []) s = (products s, s\<lparr>filteredProducts := products s\<rparr>)" for s
    by (simp_all add: searchProducts_def)
  show ?thesis
    by (simp add: idem reset searches_products)
qed

theorem searchProducts_idempotent_reset_witness:
  "fst (searchProducts (Some [])
     (foldl (\<lambda>s q. snd (searchProducts q s))
        \<lparr>service = GoogleSheetsService ''key'' ''sheet'',
         products = [[''product_name'' \<mapsto> ''Steel Frame''], [''product_name'' \<mapsto> ''Titanium Frame'']],
         filteredProducts = []\<rparr>
        [Some ''TiTa'', Some ''steel''])) =
     [[''product_name'' \<mapsto> ''Steel Frame''], [''product_name'' \<mapsto> ''Titanium Frame'']]"
  using searchProducts_idempotent_reset [of "Some ''TiTa''"
     "\<lparr>service = GoogleSheetsService ''key'' ''sheet'',
      products = [[''product_name'' \<mapsto> ''Steel Frame''], [''product_name'' \<mapsto> ''Titanium Frame'']],
      filteredProducts = []\<rparr>" "[Some ''TiTa'', Some ''steel'']"]
  by simp

section \<open>The invariant of the product catalog\<close>

lemma applyOp_invariant:
  "products (applyOp s op) = products s \<and>
   (subseq (filteredProducts s) (products s) \<longrightarrow>
      subseq (filteredProducts (applyOp s op)) (products s))"
  by (cases op) (auto simp: applyOp_def searchProducts_def Let_def split: option.splits)

lemma applyOps_invariant:
  "subseq (filteredProducts s) (products s) \<Longrightarrow>
     products (foldl applyOp s ops) = products s \<and>
     subseq (filteredProducts (foldl applyOp s ops)) (products s)"
proof (induction ops arbitrary: s)
  case Nil
  then show ?case by simp
next
  case (Cons op ops)
  from Cons.prems applyOp_invariant [of s op]
  have step: "products (applyOp s op) = products s"
    "subseq (filteredProducts (applyOp s op)) (products (applyOp s op))"
    by simp_all
  from Cons.IH [OF step(2)] step(1) show ?case by simp
qed

lemma loaded_invariant:
  "subseq (filteredProducts (snd (loadProducts fetch (ProductManager svc))))
     (products (snd (loadProducts fetch (ProductManager svc))))"
  by (simp add: loadProducts_def ProductManager_def split: sum.splits)

lemma grid_parsed:
  "parseSheetData (Some [[''Product Name''], [''Steel Frame''], [''Titanium Frame'']]) SHEETS_PRODUCTS =
     [[''product_name'' \<mapsto> ''Steel Frame''], [''product_name'' \<mapsto> ''Titanium Frame'']]"
proof -
  have "normalizeHeader ''Product Name'' = ''product_name''" by code_simp
  then show ?thesis
    by (simp add: parseSheetData_def assignField_def cellOrEmpty_def)
qed

text \<open>
  C5: take a new manager after its load (which resolves, with the fetched list or with
  nothing fetched) and any sequence of previews, look-ups by id and searches. The full list
  is the one the load left, and the filtered view is a sub-sequence of it: some of its
  records, in its order.
\<close>

theorem catalog_invariant:
  "products (foldl applyOp (snd (loadProducts fetch (ProductManager svc))) ops) =
     products (snd (loadProducts fetch (ProductManager svc))) \<and>
   subseq (filteredProducts (foldl applyOp (snd (loadProducts fetch (ProductManager svc))) ops))
     (products (snd (loadProducts fetch (ProductManager svc))))"
  using applyOps_invariant [OF loaded_invariant] by blast

theorem catalog_invariant_witness:
  "products (foldl applyOp
      (snd (loadProducts
         (\<lambda>url. FetchResolved \<lparr>ok = True, status = 200,
            body = JsonBody \<lparr>payload_error = None,
              payload_values = Some [[''Product Name''], [''Steel Frame''], [''Titanium Frame'']]\<rparr>\<rparr>)
         (ProductManager (GoogleSheetsService ''key'' ''sheet''))))
      [Search (Some ''TiTa''), Preview None, ById (Some ''7'')]) =
     [[''product_name'' \<mapsto> ''Steel Frame''], [''product_name'' \<mapsto> ''Titanium Frame'']]"
  using catalog_invariant [of
      "\<lambda>url. FetchResolved \<lparr>ok = True, status = 200,
            body = JsonBody \<lparr>payload_error = None,
              payload_values = Some [[''Product Name''], [''Steel Frame''], [''Titanium Frame'']]\<rparr>\<rparr>"
      "GoogleSheetsService ''key'' ''sheet''"
      "[Search (Some ''TiTa''), Preview None, ById (Some ''7'')]"]
  by (simp add: loadProducts_def fetchData_def ProductManager_def grid_parsed)

section \<open>Filtering the gallery\<close>

lemma lower_cataract: "toLowerCase ''CATARACT'' = toLowerCase ''Cataract''"
  by code_simp

lemma lower_lasik: "toLowerCase ''Lasik surgery'' \<noteq> toLowerCase ''Cataract''"
  by code_simp

text \<open>
  C6: for a category that is not empty, \<open>filterByCategory\<close> returns exactly the items
  whose category field, lower-cased, equals the category, lower-cased (the whole value, not
  a part of it), in the order of the gallery list; for an empty or absent category it
  returns the gallery list. The result is computed from the full gallery list alone, and
  the function assigns nothing: no earlier search or filter narrows it.
\<close>

theorem filterByCategory_result:
  "(c \<noteq> [] \<longrightarrow>
      filterByCategory (Some c) this =
        filter (\<lambda>item. \<exists>v. item GALLERY_COLUMNS_CATEGORY = Some v \<and> toLowerCase v = toLowerCase c)
          (galleryItems this)) \<and>
   filterByCategory None this = galleryItems this \<and>
   filterByCategory (Some []) this = galleryItems this"
proof -
  have "categoryEquals c =
     (\<lambda>item. \<exists>v. item GALLERY_COLUMNS_CATEGORY = Some v \<and> toLowerCase v = toLowerCase c)"
    by (rule ext) (simp add: categoryEquals_def split: option.splits)
  then show ?thesis
    by (simp add: filterByCategory_def)
qed

theorem filterByCategory_result_witness:
  "''Cataract'' \<noteq> [] \<and>
   filterByCategory (Some ''Cataract'')
     \<lparr>gallery_service = GoogleSheetsService ''key'' ''sheet'',
      galleryItems = [[''category'' \<mapsto> ''Lasik surgery''], [''category'' \<mapsto> ''CATARACT''],
                      [''surgery_name'' \<mapsto> ''Cataract'']]\<rparr> =
     [[''category'' \<mapsto> ''CATARACT'']]"
  using filterByCategory_result [of "''Cataract''"
     "\<lparr>gallery_service = GoogleSheetsService ''key'' ''sheet'',
      galleryItems = [[''category'' \<mapsto> ''Lasik surgery''], [''category'' \<mapsto> ''CATARACT''],
                      [''surgery_name'' \<mapsto> ''Cataract'']]\<rparr>"]
    lower_cataract lower_lasik
  by (simp add: GALLERY_COLUMNS_CATEGORY_def)

section \<open>The images of a product\<close>

lemma trim_Nil: "trim [] = []"
  by (simp add: trim_def)

lemma trim_examples: "trim '' a.jpg '' = ''a.jpg''" "trim ''   '' = []" "trim ''c.jpg'' = ''c.jpg''"
  by code_simp+

text \<open>
  C7: \<open>getProductImages\<close> returns the trimmed values of the three image fields that the
  product has, the empty ones left out, in the order of the fields (\<open>image_url_1\<close>,
  \<open>image_url_2\<close>, \<open>image_url_3\<close>); when nothing is left it returns the placeholder URL
  alone. The result is never the empty list.
\<close>

theorem getProductImages_result:
  "getProductImages product =
     (let found = filter (\<lambda>s. s \<noteq> []) (map trim (List.map_filter product imageFields))
      in if found = [] then [NO_IMAGE_PLACEHOLDER] else found) \<and>
   getProductImages product \<noteq> []"
  by (cases "product PRODUCT_COLUMNS_IMAGE_1"; cases "product PRODUCT_COLUMNS_IMAGE_2";
      cases "product PRODUCT_COLUMNS_IMAGE_3")
     (auto simp: getProductImages_def imageFields_def pushImage_def List.map_filter_def
        Let_def trim_Nil)

theorem getProductImages_result_witness:
  "getProductImages [''image_url_1'' \<mapsto> '' a.jpg '', ''image_url_2'' \<mapsto> ''   '',
                     ''image_url_3'' \<mapsto> ''c.jpg''] = [''a.jpg'', ''c.jpg''] \<and>
   getProductImages Map.empty = [NO_IMAGE_PLACEHOLDER]"
  using getProductImages_result [of "[''image_url_1'' \<mapsto> '' a.jpg '', ''image_url_2'' \<mapsto> ''   '',
                     ''image_url_3'' \<mapsto> ''c.jpg'']"]
    getProductImages_result [of Map.empty]
  by (simp add: imageFields_def PRODUCT_COLUMNS_IMAGE_1_def PRODUCT_COLUMNS_IMAGE_2_def
      PRODUCT_COLUMNS_IMAGE_3_def List.map_filter_def trim_examples)

section \<open>A grid with an empty header row\<close>

text \<open>
  C8, as the claim states it, fails: an empty header row followed by two data rows gives
  two records (each without a field), not the empty list.
\<close>

theorem parseSheetData_empty_header_counterexample:
  "parseSheetData (Some [[], [''Frame A''], [''Frame B'']]) ''Products'' \<noteq> [] \<and>
   length (parseSheetData (Some [[], [''Frame A''], [''Frame B'']]) ''Products'') = 2"
  by (simp add: parseSheetData_def)

text \<open>
  C8, amended: a response without a grid and a grid without rows give the empty list, with
  no error; a grid whose header row is empty gives one record for each data row, and that
  record has no field.
\<close>

theorem parseSheetData_empty_header:
  "parseSheetData None sheetName = [] \<and>
   parseSheetData (Some []) sheetName = [] \<and>
   parseSheetData (Some ([] # rows)) sheetName = replicate (length rows) Map.empty"
  by (simp add: parseSheetData_def map_replicate_const)

theorem parseSheetData_empty_header_witness:
  "parseSheetData (Some ([] # [[''Frame A''], [''Frame B'']])) ''Products'' = [Map.empty, Map.empty]"
  using parseSheetData_empty_header [of "''Products''" "[[''Frame A''], [''Frame B'']]"]
  by (simp add: numeral_2_eq_2)

section \<open>The detail pages\<close>

lemma includes_product_page: "str_includes ''/product-details.html'' ''product-details.html''"
  by code_simp

lemma includes_surgery_page: "str_includes ''/surgery-details.html'' ''surgery-details.html''"
  by code_simp

text \<open>
  C9, as the claim states it, fails: on either detail page, a stored string that is no JSON
  text makes \<open>JSON.parse\<close> throw, and the render function has no handler: it throws the
  \<open>SyntaxError\<close> and writes no markup.
\<close>

theorem render_details_counterexample:
  "renderProductDetails [''selectedProduct'' \<mapsto> NotJSON ''{name:'']
     \<lparr>pathname = ''/product-details.html'', details_container = Some []\<rparr> = Threw SyntaxError \<and>
   renderSurgeryDetails [''selectedSurgery'' \<mapsto> NotJSON ''{name:'']
     \<lparr>pathname = ''/surgery-details.html'', details_container = Some []\<rparr> = Threw SyntaxError"
  by (simp add: renderProductDetails_def renderSurgeryDetails_def parseItem_def
      includes_product_page includes_surgery_page)

text \<open>
  C9, amended: when nothing is stored under the key of the page, the render function does
  not throw, and on its detail page (the container is there and the path names the page) it
  writes the fixed markup that says nothing is selected and links back to the list.
\<close>

theorem render_details_absent:
  "(sessionStorage ''selectedProduct'' = None \<longrightarrow>
      (\<forall>e. renderProductDetails sessionStorage page \<noteq> Threw e) \<and>
      (details_container page \<noteq> None \<and> str_includes (pathname page) ''product-details.html'' \<longrightarrow>
         renderProductDetails sessionStorage page =
           Returned (page\<lparr>details_container := Some NO_PRODUCT_SELECTED\<rparr>))) \<and>
   (sessionStorage ''selectedSurgery'' = None \<longrightarrow>
      (\<forall>e. renderSurgeryDetails sessionStorage page \<noteq> Threw e) \<and>
      (details_container page \<noteq> None \<and> str_includes (pathname page) ''surgery-details.html'' \<longrightarrow>
         renderSurgeryDetails sessionStorage page =
           Returned (page\<lparr>details_container := Some NO_SURGERY_SELECTED\<rparr>)))"
  by (simp add: renderProductDetails_def renderSurgeryDetails_def parseItem_def)

theorem render_details_absent_witness:
  "renderProductDetails Map.empty
     \<lparr>pathname = ''/product-details.html'', details_container = Some []\<rparr> =
     Returned \<lparr>pathname = ''/product-details.html'', details_container = Some NO_PRODUCT_SELECTED\<rparr> \<and>
   renderSurgeryDetails Map.empty
     \<lparr>pathname = ''/surgery-details.html'', details_container = Some []\<rparr> =
     Returned \<lparr>pathname = ''/surgery-details.html'', details_container = Some NO_SURGERY_SELECTED\<rparr>"
  using render_details_absent [of Map.empty
      "\<lparr>pathname = ''/product-details.html'', details_container = Some []\<rparr>"]
    render_details_absent [of Map.empty
      "\<lparr>pathname = ''/surgery-details.html'', details_container = Some []\<rparr>"]
    includes_product_page includes_surgery_page
  by simp

section \<open>Products without the searched fields\<close>

text \<open>
  C10: in a search with a query that is not empty, a field the product does not have gives
  \<open>undefined\<close> through the optional chain (nothing is called on it, nothing is thrown),
  and a product with none of the five searched fields is not in the result.
\<close>

theorem searchProducts_missing_fields:
  "q \<noteq> [] \<longrightarrow>
     (product key = None \<longrightarrow> fieldIncludes product key (toLowerCase q) = None) \<and>
     ((\<forall>key \<in> set SEARCH_FIELDS. product key = None) \<longrightarrow>
        product \<notin> set (fst (searchProducts (Some q) this)))"
  by (auto simp: searchProducts_def Let_def matchesSearch_iff fieldIncludes_def)

theorem searchProducts_missing_fields_witness:
  "''tita'' \<noteq> [] \<and>
   [''frame_color'' \<mapsto> ''Titanium grey''] \<notin>
     set (fst (searchProducts (Some ''tita'')
       \<lparr>service = GoogleSheetsService ''key'' ''sheet'',
        products = [[''frame_color'' \<mapsto> ''Titanium grey''], [''product_name'' \<mapsto> ''Titanium Frame'']],
        filteredProducts = []\<rparr>))"
  using searchProducts_missing_fields [of "''tita''" "[''frame_color'' \<mapsto> ''Titanium grey'']"
      "''product_name''"
     "\<lparr>service = GoogleSheetsService ''key'' ''sheet'',
        products = [[''frame_color'' \<mapsto> ''Titanium grey''], [''product_name'' \<mapsto> ''Titanium Frame'']],
        filteredProducts = []\<rparr>"]
  by (simp add: SEARCH_FIELDS_def PRODUCT_COLUMNS_NAME_def PRODUCT_COLUMNS_DESCRIPTION_def
      PRODUCT_COLUMNS_BRAND_def PRODUCT_COLUMNS_SHAPE_def PRODUCT_COLUMNS_MATERIAL_def)

end
